theory Spec2Isabelle
  imports Main "HOL-Library.AList"
begin

section \<open>JavaScript values\<close>

text \<open>
  The values the client handles: what \<^verbatim>\<open>JSON.parse\<close> and \<^verbatim>\<open>response.json()\<close>
  produce, together with \<^verbatim>\<open>undefined\<close> and the one built-in function value a
  property read of this program can meet (\<^verbatim>\<open>String.prototype.sub\<close>). Numbers are the
  safe integers (of magnitude below \<open>2 ^ 53\<close>); an object is the list of its own
  properties in insertion order, with distinct keys, as \<^verbatim>\<open>JSON.parse\<close> builds it.
\<close>

datatype js =
    JUndefined
  | JNull
  | JBool bool
  | JNum int
  | JStr string
  | JArr "js list"
  | JObj "(string \<times> js) list"
  | JNative string

text \<open>What the code can catch: an \<^verbatim>\<open>ApiError\<close>, a plain \<^verbatim>\<open>new Error(message)\<close>
  of the auth module, or an exception raised by the platform, of which the code only ever
  reads the constructor (\<^verbatim>\<open>instanceof\<close>) and the \<^verbatim>\<open>name\<close>.\<close>

datatype err_class = TypeError | DOMException | SyntaxError | OtherError

record ApiError =
  message :: string
  status :: int
  errorCode :: js
  timestamp :: string
  canRetry :: bool

datatype thrown =
    ApiErr ApiError
  | ErrorObj string
  | Native err_class string

text \<open>An awaited computation returns, throws, or never settles.\<close>

datatype 'a outcome = Returned 'a | Thrown thrown | Pending

subsection \<open>Truthiness, property reads, \<^verbatim>\<open>String(v)\<close>\<close>

fun truthy :: "js \<Rightarrow> bool" where
  "truthy JUndefined = False"
| "truthy JNull = False"
| "truthy (JBool b) = b"
| "truthy (JNum n) = (n \<noteq> 0)"
| "truthy (JStr s) = (s \<noteq> [])"
| "truthy (JArr xs) = True"
| "truthy (JObj kvs) = True"
| "truthy (JNative f) = True"

text \<open>\<^verbatim>\<open>a || b\<close>\<close>

definition js_or :: "js \<Rightarrow> js \<Rightarrow> js" where
  "js_or a b = (if truthy a then a else b)"

text \<open>
  \<^verbatim>\<open>v.k\<close> for the property names this program reads (\<^verbatim>\<open>error_code\<close>,
  \<^verbatim>\<open>errorCode\<close>, \<^verbatim>\<open>message\<close>, \<^verbatim>\<open>detail\<close>, \<^verbatim>\<open>access_token\<close>, \<^verbatim>\<open>user\<close>,
  \<^verbatim>\<open>sub\<close>, \<^verbatim>\<open>email\<close>, \<^verbatim>\<open>exp\<close>): reading a property of \<^verbatim>\<open>null\<close> or
  \<^verbatim>\<open>undefined\<close> throws a TypeError; an object gives its own property or
  \<^verbatim>\<open>undefined\<close>; of the prototypes of the primitives and of arrays only
  \<^verbatim>\<open>String.prototype.sub\<close> carries one of these names.
\<close>

fun get_prop :: "js \<Rightarrow> string \<Rightarrow> thrown + js" where
  "get_prop JUndefined k = Inl (Native TypeError ''TypeError'')"
| "get_prop JNull k = Inl (Native TypeError ''TypeError'')"
| "get_prop (JObj kvs) k = Inr (case map_of kvs k of None \<Rightarrow> JUndefined | Some v \<Rightarrow> v)"
| "get_prop (JStr s) k = Inr (if k = ''sub'' then JNative ''sub'' else JUndefined)"
| "get_prop (JBool b) k = Inr JUndefined"
| "get_prop (JNum n) k = Inr JUndefined"
| "get_prop (JArr xs) k = Inr JUndefined"
| "get_prop (JNative f) k = Inr JUndefined"

definition digit_char :: "nat \<Rightarrow> char" where
  "digit_char d = char_of (48 + d)"

fun nat_to_string :: "nat \<Rightarrow> string" where
  "nat_to_string n =
     (if n < 10 then [digit_char n] else nat_to_string (n div 10) @ [digit_char (n mod 10)])"

declare nat_to_string.simps [simp del]

text \<open>\<^verbatim>\<open>String(n)\<close> of a safe integer: its decimal numeral, with \<^verbatim>\<open>-\<close> in front when
  it is negative.\<close>

definition num_to_string :: "int \<Rightarrow> string" where
  "num_to_string n = (if n < 0 then CHR ''-'' # nat_to_string (nat (- n)) else nat_to_string (nat n))"

fun join_comma :: "string list \<Rightarrow> string" where
  "join_comma [] = []"
| "join_comma [s] = s"
| "join_comma (s # t # ss) = s @ '','' @ join_comma (t # ss)"

fun js_to_string :: "js \<Rightarrow> string" where
  "js_to_string JUndefined = ''undefined''"
| "js_to_string JNull = ''null''"
| "js_to_string (JBool b) = (if b then ''true'' else ''false'')"
| "js_to_string (JNum n) = num_to_string n"
| "js_to_string (JStr s) = s"
| "js_to_string (JArr xs) =
     join_comma (map (\<lambda>x. if x = JNull \<or> x = JUndefined then [] else js_to_string x) xs)"
| "js_to_string (JObj kvs) = ''[object Object]''"
| "js_to_string (JNative f) = ''function '' @ f @ ''() { [native code] }''"

section \<open>The browser environment\<close>

text \<open>
  A call of \<^verbatim>\<open>fetch(url, init)\<close> as the network sees it. A body is kept as the value
  whose \<^verbatim>\<open>JSON.stringify\<close> text it is. \<open>f_signal\<close> says whether an abort signal
  was passed; the only signal this program passes is that of the controller its own timer
  aborts.
\<close>

record fetch_init =
  f_method :: "string option"
  f_headers :: "(string \<times> string) list"
  f_body :: "js option"
  f_signal :: bool

datatype effect =
    SetItem string string
  | RemoveItem string
  | SetTimeout int
  | Abort
  | ClearTimeout
  | Fetch string fetch_init
  | ConsoleError string thrown

text \<open>
  The mutable surroundings: whether \<^verbatim>\<open>typeof window !== 'undefined'\<close>, the content of
  \<^verbatim>\<open>localStorage\<close>, and the effects performed so far, oldest first. Reading and writing
  \<^verbatim>\<open>localStorage\<close> succeeds whenever there is a window.
\<close>

record world =
  has_window :: bool
  storage :: "string \<rightharpoonup> string"
  log :: "effect list"

definition emit :: "effect \<Rightarrow> world \<Rightarrow> world" where
  "emit e w = w\<lparr>log := log w @ [e]\<rparr>"

definition setItem :: "string \<Rightarrow> string \<Rightarrow> world \<Rightarrow> world" where
  "setItem k v w = emit (SetItem k v) (w\<lparr>storage := (storage w)(k \<mapsto> v)\<rparr>)"

definition removeItem :: "string \<Rightarrow> world \<Rightarrow> world" where
  "removeItem k w = emit (RemoveItem k) (w\<lparr>storage := (storage w)(k := None)\<rparr>)"

text \<open>
  What the platform supplies and the code reads: the clock (\<^verbatim>\<open>Date.now()\<close> in
  milliseconds and \<^verbatim>\<open>new Date().toISOString()\<close>), \<^verbatim>\<open>JSON.parse(atob(s))\<close> (\<open>Inl\<close>
  the exception when either throws), the comparison \<^verbatim>\<open>v < n\<close> for a left operand that
  is not a number, and the two environment variables.
\<close>

record platform =
  now_ms :: int
  now_iso :: string
  parse_payload :: "string \<Rightarrow> thrown + js"
  coerced_less :: "js \<Rightarrow> int \<Rightarrow> bool"
  env_api_base_url :: "string option"
  env_api_url :: "string option"

text \<open>A response: its status and what \<^verbatim>\<open>response.json()\<close> resolves to (\<open>None\<close> when it
  rejects).\<close>

record response =
  resp_status :: int
  resp_json :: "js option"

definition ok :: "response \<Rightarrow> bool" where
  "ok r = (200 \<le> resp_status r \<and> resp_status r \<le> 299)"

text \<open>
  What the network does with one request: it answers, it fails with an exception, or it
  does not settle (not before the client's timer, if one is armed).
\<close>

datatype net = Responds response | Fails err_class string | Hangs

text \<open>
  \<^verbatim>\<open>await fetch(url, init)\<close>. When the request carries the controller's signal and the
  network does not settle, the timer fires, the controller aborts, and \<^verbatim>\<open>fetch\<close>
  rejects with the abort reason: a \<^verbatim>\<open>DOMException\<close> named \<^verbatim>\<open>AbortError\<close>.
\<close>

definition fetch :: "string \<Rightarrow> fetch_init \<Rightarrow> net \<Rightarrow> world \<Rightarrow> response outcome \<times> world" where
  "fetch url init n w =
     (let w1 = emit (Fetch url init) w in
      case n of
        Responds r \<Rightarrow> (Returned r, w1)
      | Fails c nm \<Rightarrow> (Thrown (Native c nm), w1)
      | Hangs \<Rightarrow>
          if f_signal init then (Thrown (Native DOMException ''AbortError''), emit Abort w1)
          else (Pending, w1))"

section \<open>The API client (frontend/lib/api-client.ts)\<close>

record ApiClientConfig =
  baseUrl :: string
  tokenKey :: string
  timeout :: int

datatype abort_signal = CallerSignal

record RequestInit =
  req_method :: "string option"
  headers :: "(string \<times> string) list option"
  body :: "js option"
  signal :: "abort_signal option"

record RequestOptions =
  opt_headers :: "(string \<times> string) list option"
  opt_timeout :: "int option"

text \<open>\<^verbatim>\<open>{ ...base, ...extra }\<close>: each property of \<open>extra\<close> in turn replaces the value of
  its key, or is added last.\<close>

definition spread :: "(string \<times> string) list \<Rightarrow> (string \<times> string) list \<Rightarrow> (string \<times> string) list" where
  "spread base extra = foldl (\<lambda>acc kv. AList.update (fst kv) (snd kv) acc) base extra"

text \<open>The \<^verbatim>\<open>headers\<close> constant of \<^verbatim>\<open>request\<close>.\<close>

definition request_headers :: "string \<Rightarrow> RequestInit \<Rightarrow> (string \<times> string) list" where
  "request_headers token options =
     spread [(''Content-Type'', ''application/json''), (''Authorization'', ''Bearer '' @ token)]
       (case headers options of None \<Rightarrow> [] | Some hs \<Rightarrow> hs)"

definition status_message :: "int \<Rightarrow> js \<Rightarrow> thrown + string" where
  "status_message s errorData =
     (if s = 400 then Inr ''Invalid request''
      else if s = 403 then Inr ''You don't have access to this resource''
      else if s = 404 then Inr ''The requested item was not found''
      else if s = 422 then Inr ''Please check your input''
      else if s = 500 then Inr ''Something went wrong. Please try again.''
      else (case get_prop errorData ''message'' of
              Inl e \<Rightarrow> Inl e
            | Inr m \<Rightarrow> Inr (js_to_string (js_or m (JStr ''Request failed'')))))"

text \<open>The \<^verbatim>\<open>!response.ok\<close> branch: the value it throws.\<close>

definition error_of_response :: "platform \<Rightarrow> response \<Rightarrow> thrown" where
  "error_of_response P r =
     (let errorData = (case resp_json r of None \<Rightarrow> JObj [] | Some v \<Rightarrow> v) in
      case get_prop errorData ''error_code'' of
        Inl e \<Rightarrow> e
      | Inr c1 \<Rightarrow>
          (case (if truthy c1 then Inr c1
                 else (case get_prop errorData ''errorCode'' of
                         Inl e \<Rightarrow> Inl e
                       | Inr c2 \<Rightarrow> Inr (js_or c2 JNull))) of
             Inl e \<Rightarrow> e
           | Inr code \<Rightarrow>
               (case status_message (resp_status r) errorData of
                  Inl e \<Rightarrow> e
                | Inr msg \<Rightarrow>
                    ApiErr \<lparr>message = msg, status = resp_status r, errorCode = code,
                      timestamp = now_iso P,
                      canRetry = (resp_status r \<ge> 500 \<or> resp_status r = 0)\<rparr>)))"

text \<open>The \<^verbatim>\<open>try\<close> block from the arrival of the response on.\<close>

definition handle_response ::
  "platform \<Rightarrow> ApiClientConfig \<Rightarrow> bool \<Rightarrow> response \<Rightarrow> world \<Rightarrow> js outcome \<times> world" where
  "handle_response P cfg armed r w =
     (let w1 = (if armed then emit ClearTimeout w else w) in
      if resp_status r = 401 then
        (Thrown (ApiErr \<lparr>message = ''Unauthorized access'', status = 401,
           errorCode = JStr ''AUTH_001'', timestamp = now_iso P, canRetry = False\<rparr>),
         if has_window w1 then removeItem (tokenKey cfg) w1 else w1)
      else if \<not> ok r then (Thrown (error_of_response P r), w1)
      else if resp_status r = 204 then (Returned JUndefined, w1)
      else (case resp_json r of
              None \<Rightarrow> (Thrown (Native SyntaxError ''SyntaxError''), w1)
            | Some v \<Rightarrow> (Returned v, w1)))"

text \<open>The \<^verbatim>\<open>catch\<close> block.\<close>

definition request_catch :: "platform \<Rightarrow> bool \<Rightarrow> thrown \<Rightarrow> world \<Rightarrow> js outcome \<times> world" where
  "request_catch P armed e w =
     (let w1 = (if armed then emit ClearTimeout w else w) in
      case e of
        ApiErr a \<Rightarrow> (Thrown (ApiErr a), w1)
      | Native c nm \<Rightarrow>
          if c = TypeError \<and> nm = ''AbortError'' then
            (Thrown (ApiErr \<lparr>message = ''Request timeout'', status = 0, errorCode = JNull,
               timestamp = now_iso P, canRetry = True\<rparr>), w1)
          else
            (Thrown (ApiErr \<lparr>message = ''Network error. Check your connection.'', status = 0,
               errorCode = JNull, timestamp = now_iso P, canRetry = True\<rparr>), w1)
      | ErrorObj m \<Rightarrow>
          (Thrown (ApiErr \<lparr>message = ''Network error. Check your connection.'', status = 0,
             errorCode = JNull, timestamp = now_iso P, canRetry = True\<rparr>), w1))"

text \<open>The \<^verbatim>\<open>timeout\<close> constant of \<^verbatim>\<open>request\<close> (\<open>None\<close> is \<^verbatim>\<open>undefined\<close>), and the
  test \<^verbatim>\<open>if (timeout)\<close> that arms the timer.\<close>

definition request_timeout :: "ApiClientConfig \<Rightarrow> RequestInit \<Rightarrow> int option" where
  "request_timeout cfg options =
     (case signal options of Some s \<Rightarrow> None | None \<Rightarrow> Some (timeout cfg))"

definition timer_armed :: "ApiClientConfig \<Rightarrow> RequestInit \<Rightarrow> bool" where
  "timer_armed cfg options =
     (case request_timeout cfg options of None \<Rightarrow> False | Some ms \<Rightarrow> ms \<noteq> 0)"

definition no_token_error :: "platform \<Rightarrow> ApiError" where
  "no_token_error P =
     \<lparr>message = ''No authentication token found'', status = 401,
      errorCode = JStr ''AUTH_001'', timestamp = now_iso P, canRetry = False\<rparr>"

definition request ::
  "platform \<Rightarrow> ApiClientConfig \<Rightarrow> string \<Rightarrow> RequestInit \<Rightarrow> net \<Rightarrow> world \<Rightarrow> js outcome \<times> world" where
  "request P cfg endpoint options n w =
     (let url = baseUrl cfg @ endpoint in
      case (if has_window w then storage w (tokenKey cfg) else None) of
        None \<Rightarrow> (Thrown (ApiErr (no_token_error P)), w)
      | Some tok \<Rightarrow>
          if tok = [] then (Thrown (ApiErr (no_token_error P)), w)
          else
            let armed = timer_armed cfg options;
                w1 = (case request_timeout cfg options of
                        None \<Rightarrow> w
                      | Some ms \<Rightarrow> if ms \<noteq> 0 then emit (SetTimeout ms) w else w);
                tried =
                  (case fetch url
                     \<lparr>f_method = req_method options, f_headers = request_headers tok options,
                      f_body = body options, f_signal = armed\<rparr> n w1 of
                     (Returned r, w2) \<Rightarrow> handle_response P cfg armed r w2
                   | (Thrown e, w2) \<Rightarrow> (Thrown e, w2)
                   | (Pending, w2) \<Rightarrow> (Pending, w2))
            in
            (case tried of
               (Thrown e, w3) \<Rightarrow> request_catch P armed e w3
             | (Returned v, w3) \<Rightarrow> (Returned v, w3)
             | (Pending, w3) \<Rightarrow> (Pending, w3)))"

text \<open>\<^verbatim>\<open>JSON.stringify(data)\<close>: \<^verbatim>\<open>undefined\<close> for \<^verbatim>\<open>undefined\<close> and for a
  function, a text otherwise.\<close>

definition json_stringify :: "js \<Rightarrow> js option" where
  "json_stringify v = (case v of JUndefined \<Rightarrow> None | JNative f \<Rightarrow> None | _ \<Rightarrow> Some v)"

definition options_headers :: "RequestOptions option \<Rightarrow> (string \<times> string) list option" where
  "options_headers options = (case options of None \<Rightarrow> None | Some opts \<Rightarrow> opt_headers opts)"

definition get ::
  "platform \<Rightarrow> ApiClientConfig \<Rightarrow> string \<Rightarrow> RequestOptions option \<Rightarrow> net \<Rightarrow> world \<Rightarrow> js outcome \<times> world" where
  "get P cfg endpoint options =
     request P cfg endpoint
       \<lparr>req_method = Some ''GET'', headers = options_headers options, body = None, signal = None\<rparr>"

definition post ::
  "platform \<Rightarrow> ApiClientConfig \<Rightarrow> string \<Rightarrow> js \<Rightarrow> RequestOptions option \<Rightarrow> net \<Rightarrow> world \<Rightarrow> js outcome \<times> world" where
  "post P cfg endpoint data options =
     request P cfg endpoint
       \<lparr>req_method = Some ''POST'', headers = options_headers options,
        body = json_stringify data, signal = None\<rparr>"

definition put ::
  "platform \<Rightarrow> ApiClientConfig \<Rightarrow> string \<Rightarrow> js \<Rightarrow> RequestOptions option \<Rightarrow> net \<Rightarrow> world \<Rightarrow> js outcome \<times> world" where
  "put P cfg endpoint data options =
     request P cfg endpoint
       \<lparr>req_method = Some ''PUT'', headers = options_headers options,
        body = json_stringify data, signal = None\<rparr>"

definition patch ::
  "platform \<Rightarrow> ApiClientConfig \<Rightarrow> string \<Rightarrow> js \<Rightarrow> RequestOptions option \<Rightarrow> net \<Rightarrow> world \<Rightarrow> js outcome \<times> world" where
  "patch P cfg endpoint data options =
     request P cfg endpoint
       \<lparr>req_method = Some ''PATCH'', headers = options_headers options,
        body = json_stringify data, signal = None\<rparr>"

definition delete ::
  "platform \<Rightarrow> ApiClientConfig \<Rightarrow> string \<Rightarrow> RequestOptions option \<Rightarrow> net \<Rightarrow> world \<Rightarrow> js outcome \<times> world" where
  "delete P cfg endpoint options n w =
     (case request P cfg endpoint
        \<lparr>req_method = Some ''DELETE'', headers = options_headers options, body = None,
         signal = None\<rparr> n w of
        (Returned v, w') \<Rightarrow> (Returned JUndefined, w')
      | (Thrown e, w') \<Rightarrow> (Thrown e, w')
      | (Pending, w') \<Rightarrow> (Pending, w'))"

text \<open>The default instance.\<close>

definition apiClient :: "platform \<Rightarrow> ApiClientConfig" where
  "apiClient P =
     \<lparr>baseUrl = (case env_api_base_url P of
                   None \<Rightarrow> ''http://localhost:8000''
                 | Some u \<Rightarrow> if u = [] then ''http://localhost:8000'' else u),
      tokenKey = ''auth_token'',
      timeout = 10000\<rparr>"

section \<open>The task API (frontend/lib/api-client.ts)\<close>

text \<open>
  Modelled from the spec: the type \<^verbatim>\<open>TaskQueryParams\<close> is imported from a module that is
  not among the sources; the spec names the optional query parameters
  \<^verbatim>\<open>is_completed\<close>, \<^verbatim>\<open>limit\<close> and \<^verbatim>\<open>offset\<close>. \<open>None\<close> is \<^verbatim>\<open>undefined\<close>.
\<close>

record TaskQueryParams =
  is_completed :: "bool option"
  limit :: "int option"
  offset :: "int option"

text \<open>
  \<^verbatim>\<open>URLSearchParams.toString()\<close>: the \<^verbatim>\<open>application/x-www-form-urlencoded\<close>
  serialisation. A byte among \<^verbatim>\<open>* - . _\<close>, the digits and the letters stands for
  itself, a space becomes \<^verbatim>\<open>+\<close>, any other byte \<^verbatim>\<open>%XX\<close>.
\<close>

definition hex_digit :: "nat \<Rightarrow> char" where
  "hex_digit d = (if d < 10 then char_of (48 + d) else char_of (55 + d))"

definition urlencode_byte :: "char \<Rightarrow> string" where
  "urlencode_byte c =
     (let n = (of_char c :: nat) in
      if n = 42 \<or> n = 45 \<or> n = 46 \<or> n = 95 \<or> (48 \<le> n \<and> n \<le> 57) \<or> (65 \<le> n \<and> n \<le> 90)
         \<or> (97 \<le> n \<and> n \<le> 122)
      then [c]
      else if n = 32 then ''+''
      else [CHR ''%'', hex_digit (n div 16), hex_digit (n mod 16)])"

definition urlencode :: "string \<Rightarrow> string" where
  "urlencode s = concat (map urlencode_byte s)"

fun join_amp :: "string list \<Rightarrow> string" where
  "join_amp [] = []"
| "join_amp [s] = s"
| "join_amp (s # t # ss) = s @ ''&'' @ join_amp (t # ss)"

definition params_toString :: "(string \<times> string) list \<Rightarrow> string" where
  "params_toString ps = join_amp (map (\<lambda>kv. urlencode (fst kv) @ ''='' @ urlencode (snd kv)) ps)"

text \<open>The endpoint \<^verbatim>\<open>getTasks\<close> builds; \<open>None\<close> is a call without \<^verbatim>\<open>params\<close>.\<close>

definition getTasks_endpoint :: "TaskQueryParams option \<Rightarrow> string" where
  "getTasks_endpoint params =
     (let q0 = [];
          q1 = (case (case params of None \<Rightarrow> None | Some p \<Rightarrow> is_completed p) of
                  None \<Rightarrow> q0
                | Some b \<Rightarrow> q0 @ [(''is_completed'', js_to_string (JBool b))]);
          q2 = (case (case params of None \<Rightarrow> None | Some p \<Rightarrow> limit p) of
                  None \<Rightarrow> q1
                | Some l \<Rightarrow> q1 @ [(''limit'', js_to_string (JNum l))]);
          q3 = (case (case params of None \<Rightarrow> None | Some p \<Rightarrow> offset p) of
                  None \<Rightarrow> q2
                | Some off \<Rightarrow> q2 @ [(''offset'', js_to_string (JNum off))]);
          queryString = params_toString q3
      in if queryString \<noteq> [] then ''/api/v1/tasks?'' @ queryString else ''/api/v1/tasks'')"

definition getTasks ::
  "platform \<Rightarrow> TaskQueryParams option \<Rightarrow> net \<Rightarrow> world \<Rightarrow> js outcome \<times> world" where
  "getTasks P params = get P (apiClient P) (getTasks_endpoint params) None"

definition getTask :: "platform \<Rightarrow> int \<Rightarrow> net \<Rightarrow> world \<Rightarrow> js outcome \<times> world" where
  "getTask P i = get P (apiClient P) (''/api/v1/tasks/'' @ num_to_string i) None"

definition createTask :: "platform \<Rightarrow> js \<Rightarrow> net \<Rightarrow> world \<Rightarrow> js outcome \<times> world" where
  "createTask P data = post P (apiClient P) ''/api/v1/tasks'' data None"

definition updateTask :: "platform \<Rightarrow> int \<Rightarrow> js \<Rightarrow> net \<Rightarrow> world \<Rightarrow> js outcome \<times> world" where
  "updateTask P i data = put P (apiClient P) (''/api/v1/tasks/'' @ num_to_string i) data None"

definition patchTask :: "platform \<Rightarrow> int \<Rightarrow> js \<Rightarrow> net \<Rightarrow> world \<Rightarrow> js outcome \<times> world" where
  "patchTask P i data = patch P (apiClient P) (''/api/v1/tasks/'' @ num_to_string i) data None"

definition deleteTask :: "platform \<Rightarrow> int \<Rightarrow> net \<Rightarrow> world \<Rightarrow> js outcome \<times> world" where
  "deleteTask P i = delete P (apiClient P) (''/api/v1/tasks/'' @ num_to_string i) None"

section \<open>The auth module\<close>

definition API_BASE_URL :: "platform \<Rightarrow> string" where
  "API_BASE_URL P =
     (case env_api_url P of
        None \<Rightarrow> ''http://127.0.0.1:8000''
      | Some u \<Rightarrow> if u = [] then ''http://127.0.0.1:8000'' else u)"

definition getAuthToken :: "world \<Rightarrow> string option" where
  "getAuthToken w = (if has_window w then storage w ''auth_token'' else None)"

definition setAuthToken :: "string \<Rightarrow> world \<Rightarrow> world" where
  "setAuthToken t w = (if has_window w then setItem ''auth_token'' t w else w)"

definition removeAuthToken :: "world \<Rightarrow> world" where
  "removeAuthToken w = (if has_window w then removeItem ''auth_token'' w else w)"

record SignInResult =
  user :: js
  token :: js

definition signIn ::
  "platform \<Rightarrow> string \<Rightarrow> string \<Rightarrow> net \<Rightarrow> world \<Rightarrow> SignInResult outcome \<times> world" where
  "signIn P email password n w =
     (let tried =
        (case fetch (API_BASE_URL P @ ''/api/v1/auth/signin'')
           \<lparr>f_method = Some ''POST'', f_headers = [(''Content-Type'', ''application/json'')],
            f_body = Some (JObj [(''email'', JStr email), (''password'', JStr password)]),
            f_signal = False\<rparr> n w of
           (Returned r, w1) \<Rightarrow>
             if \<not> ok r then
               (let errorData = (case resp_json r of None \<Rightarrow> JObj [] | Some v \<Rightarrow> v) in
                case get_prop errorData ''detail'' of
                  Inl e \<Rightarrow> (Thrown e, w1)
                | Inr d \<Rightarrow> (Thrown (ErrorObj (js_to_string (js_or d (JStr ''Sign in failed'')))), w1))
             else
               (case resp_json r of
                  None \<Rightarrow> (Thrown (Native SyntaxError ''SyntaxError''), w1)
                | Some data \<Rightarrow>
                    (case get_prop data ''access_token'' of
                       Inl e \<Rightarrow> (Thrown e, w1)
                     | Inr access_token \<Rightarrow>
                         (case get_prop data ''user'' of
                            Inl e \<Rightarrow> (Thrown e, w1)
                          | Inr u \<Rightarrow>
                              (Returned \<lparr>user = u, token = access_token\<rparr>,
                               setAuthToken (js_to_string access_token) w1))))
         | (Thrown e, w1) \<Rightarrow> (Thrown e, w1)
         | (Pending, w1) \<Rightarrow> (Pending, w1))
      in
      case tried of
        (Thrown e, w2) \<Rightarrow> (Thrown e, emit (ConsoleError ''Sign in error:'' e) w2)
      | (Returned v, w2) \<Rightarrow> (Returned v, w2)
      | (Pending, w2) \<Rightarrow> (Pending, w2))"

definition signOut :: "world \<Rightarrow> world" where
  "signOut w = removeAuthToken w"

record User =
  userId :: js
  email :: js

record AuthState =
  isAuthenticated :: bool
  currentUser :: "User option"

text \<open>\<^verbatim>\<open>token.split(".")\<close> is \<open>split_on CHR ''.''\<close>.\<close>

fun split_on :: "char \<Rightarrow> string \<Rightarrow> string list" where
  "split_on sep [] = [[]]"
| "split_on sep (c # cs) =
     (if c = sep then [] # split_on sep cs
      else (case split_on sep cs of [] \<Rightarrow> [[c]] | p # ps \<Rightarrow> (c # p) # ps))"

text \<open>\<^verbatim>\<open>v < n\<close> for a number \<open>n\<close>.\<close>

definition js_less :: "platform \<Rightarrow> js \<Rightarrow> int \<Rightarrow> bool" where
  "js_less P v n = (case v of JNum m \<Rightarrow> m < n | _ \<Rightarrow> coerced_less P v n)"

text \<open>The \<^verbatim>\<open>try\<close> block of \<^verbatim>\<open>checkAuthState\<close> from the decoding on; \<open>seg\<close> is
  \<^verbatim>\<open>tokenParts[1]\<close>.\<close>

definition check_payload :: "platform \<Rightarrow> string \<Rightarrow> world \<Rightarrow> thrown + (AuthState \<times> world)" where
  "check_payload P seg w =
     (case parse_payload P seg of
        Inl e \<Rightarrow> Inl e
      | Inr payload \<Rightarrow>
          (case get_prop payload ''sub'' of
             Inl e \<Rightarrow> Inl e
           | Inr sub \<Rightarrow>
               (case get_prop payload ''email'' of
                  Inl e \<Rightarrow> Inl e
                | Inr em \<Rightarrow>
                    (case get_prop payload ''exp'' of
                       Inl e \<Rightarrow> Inl e
                     | Inr ex \<Rightarrow>
                         (let usr = \<lparr>userId = sub, email = js_or em (JStr [])\<rparr>;
                              currentTime = now_ms P div 1000
                          in if truthy ex \<and> js_less P ex currentTime then
                               Inr (\<lparr>isAuthenticated = False, currentUser = None\<rparr>, removeAuthToken w)
                             else Inr (\<lparr>isAuthenticated = True, currentUser = Some usr\<rparr>, w))))))"

definition checkAuthState :: "platform \<Rightarrow> world \<Rightarrow> AuthState \<times> world" where
  "checkAuthState P w =
     (if \<not> has_window w then (\<lparr>isAuthenticated = False, currentUser = None\<rparr>, w)
      else
        (case getAuthToken w of
           None \<Rightarrow> (\<lparr>isAuthenticated = False, currentUser = None\<rparr>, w)
         | Some tok \<Rightarrow>
             if tok = [] then (\<lparr>isAuthenticated = False, currentUser = None\<rparr>, w)
             else
               (let tokenParts = split_on CHR ''.'' tok in
                if length tokenParts \<noteq> 3 then (\<lparr>isAuthenticated = False, currentUser = None\<rparr>, w)
                else
                  (case check_payload P (tokenParts ! 1) w of
                     Inr res \<Rightarrow> res
                   | Inl e \<Rightarrow>
                       (\<lparr>isAuthenticated = False, currentUser = None\<rparr>,
                        removeAuthToken (emit (ConsoleError ''Error decoding token:'' e) w))))))"

definition refreshToken :: "platform \<Rightarrow> net \<Rightarrow> world \<Rightarrow> js outcome \<times> world" where
  "refreshToken P n w =
     (case getAuthToken w of
        None \<Rightarrow> (Returned JNull, w)
      | Some tok \<Rightarrow>
          if tok = [] then (Returned JNull, w)
          else
            (let tried =
               (case fetch (API_BASE_URL P @ ''/api/v1/auth/refresh'')
                  \<lparr>f_method = Some ''POST'',
                   f_headers = [(''Content-Type'', ''application/json''),
                                (''Authorization'', ''Bearer '' @ tok)],
                   f_body = None, f_signal = False\<rparr> n w of
                  (Returned r, w1) \<Rightarrow>
                    if \<not> ok r then (Returned JNull, removeAuthToken w1)
                    else
                      (case resp_json r of
                         None \<Rightarrow> (Thrown (Native SyntaxError ''SyntaxError''), w1)
                       | Some data \<Rightarrow>
                           (case get_prop data ''access_token'' of
                              Inl e \<Rightarrow> (Thrown e, w1)
                            | Inr newToken \<Rightarrow>
                                (Returned newToken, setAuthToken (js_to_string newToken) w1)))
                | (Thrown e, w1) \<Rightarrow> (Thrown e, w1)
                | (Pending, w1) \<Rightarrow> (Pending, w1))
             in
             case tried of
               (Thrown e, w2) \<Rightarrow>
                 (Returned JNull,
                  removeAuthToken (emit (ConsoleError ''Error refreshing token:'' e) w2))
             | (Returned v, w2) \<Rightarrow> (Returned v, w2)
             | (Pending, w2) \<Rightarrow> (Pending, w2)))"

section \<open>Observations and sample inputs\<close>

text \<open>The calls of \<^verbatim>\<open>fetch\<close> and the timers armed, read off a log.\<close>

fun fetches :: "effect list \<Rightarrow> (string \<times> fetch_init) list" where
  "fetches [] = []"
| "fetches (Fetch url init # es) = (url, init) # fetches es"
| "fetches (e # es) = fetches es"

fun timers :: "effect list \<Rightarrow> int list" where
  "timers [] = []"
| "timers (SetTimeout ms # es) = ms # timers es"
| "timers (e # es) = timers es"

text \<open>The headers a caller passed to \<^verbatim>\<open>request\<close>, none when the field is absent.\<close>

definition caller_headers :: "RequestInit \<Rightarrow> (string \<times> string) list" where
  "caller_headers options = (case headers options of None \<Rightarrow> [] | Some hs \<Rightarrow> hs)"

text \<open>
  The query parameters that are not \<^verbatim>\<open>undefined\<close>, each with the text of its value, in
  the order \<^verbatim>\<open>is_completed\<close>, \<^verbatim>\<open>limit\<close>, \<^verbatim>\<open>offset\<close>: what the spec says
  \<^verbatim>\<open>getTasks\<close> serialises.
\<close>

definition defined_params :: "TaskQueryParams option \<Rightarrow> (string \<times> string) list" where
  "defined_params params =
     (case params of
        None \<Rightarrow> []
      | Some p \<Rightarrow>
          (case is_completed p of
             None \<Rightarrow> []
           | Some b \<Rightarrow> [(''is_completed'', if b then ''true'' else ''false'')])
          @ (case limit p of None \<Rightarrow> [] | Some l \<Rightarrow> [(''limit'', num_to_string l)])
          @ (case offset p of None \<Rightarrow> [] | Some off \<Rightarrow> [(''offset'', num_to_string off)]))"

text \<open>
  A platform and a browser world for the examples: the clock stands at
  2023-11-14T22:13:20.999Z, no environment variable is set, and \<open>parse_payload\<close> is
  \<^verbatim>\<open>JSON.parse(atob(s))\<close> on the two payload segments the examples decode,
  \<^verbatim>\<open>eyJleHAiOjB9\<close> for \<^verbatim>\<open>{"exp":0}\<close> and \<^verbatim>\<open>eyJleHAiOjV9\<close> for \<^verbatim>\<open>{"exp":5}\<close>.
  The world holds the token \<open>tok\<close> under \<^verbatim>\<open>auth_token\<close> and has performed no effect.
\<close>

definition sample_platform :: platform where
  "sample_platform =
     \<lparr>now_ms = 1700000000999, now_iso = ''2023-11-14T22:13:20.999Z'',
      parse_payload =
        (\<lambda>s. if s = ''eyJleHAiOjB9'' then Inr (JObj [(''exp'', JNum 0)])
             else if s = ''eyJleHAiOjV9'' then Inr (JObj [(''exp'', JNum 5)])
             else Inl (Native SyntaxError ''SyntaxError'')),
      coerced_less = (\<lambda>v n. False), env_api_base_url = None, env_api_url = None\<rparr>"

definition sample_world :: "string \<Rightarrow> world" where
  "sample_world tok = \<lparr>has_window = True, storage = [''auth_token'' \<mapsto> tok], log = []\<rparr>"

section \<open>Properties\<close>

subsection \<open>Effects on the world\<close>

lemma emit_sel [simp]:
  "log (emit e w) = log w @ [e]"
  "storage (emit e w) = storage w"
  "has_window (emit e w) = has_window w"
  by (simp_all add: emit_def)

lemma removeItem_sel [simp]:
  "log (removeItem k w) = log w @ [RemoveItem k]"
  "storage (removeItem k w) = (storage w)(k := None)"
  "has_window (removeItem k w) = has_window w"
  by (simp_all add: removeItem_def)

lemma setItem_sel [simp]:
  "log (setItem k v w) = log w @ [SetItem k v]"
  "storage (setItem k v w) = (storage w)(k \<mapsto> v)"
  "has_window (setItem k v w) = has_window w"
  by (simp_all add: setItem_def)

lemma fetches_append: "fetches (xs @ ys) = fetches xs @ fetches ys"
  by (induction xs rule: fetches.induct) simp_all

lemma timers_append: "timers (xs @ ys) = timers xs @ timers ys"
  by (induction xs rule: timers.induct) simp_all

lemma map_of_spread: "map_of (spread base extra) = map_of base ++ map_of (rev extra)"
proof (induction extra arbitrary: base)
  case Nil
  then show ?case by (simp add: spread_def)
next
  case (Cons kv extra)
  have "map_of (spread base (kv # extra)) = map_of (spread (AList.update (fst kv) (snd kv) base) extra)"
    by (simp add: spread_def)
  also have "\<dots> = (map_of base)(fst kv \<mapsto> snd kv) ++ map_of (rev extra)"
    by (simp only: Cons.IH update_conv')
  also have "\<dots> = map_of base ++ map_of (rev (kv # extra))"
    by (cases kv) (simp add: map_add_upd_left fun_eq_iff map_add_def split: option.splits)
  finally show ?case .
qed

lemma fetch_log:
  "fetches (log (snd (fetch url init n w))) = fetches (log w) @ [(url, init)]"
  "timers (log (snd (fetch url init n w))) = timers (log w)"
  by (cases n; simp add: fetch_def Let_def fetches_append timers_append)+

lemma handle_response_log:
  "fetches (log (snd (handle_response P cfg armed r w))) = fetches (log w)"
  "timers (log (snd (handle_response P cfg armed r w))) = timers (log w)"
  by (simp_all add: handle_response_def Let_def fetches_append timers_append split: option.splits)

lemma request_catch_log:
  "fetches (log (snd (request_catch P armed e w))) = fetches (log w)"
  "timers (log (snd (request_catch P armed e w))) = timers (log w)"
  by (cases e; simp add: request_catch_def Let_def fetches_append timers_append)+

lemma request_fetches:
  assumes "has_window w" and "storage w (tokenKey cfg) = Some tok" and "tok \<noteq> []"
  shows "fetches (log (snd (request P cfg endpoint options n w))) =
           fetches (log w)
           @ [(baseUrl cfg @ endpoint,
               \<lparr>f_method = req_method options, f_headers = request_headers tok options,
                f_body = body options, f_signal = timer_armed cfg options\<rparr>)]"
proof -
  let ?init = "\<lparr>f_method = req_method options, f_headers = request_headers tok options,
                f_body = body options, f_signal = timer_armed cfg options\<rparr>"
  define w1 where "w1 = (case request_timeout cfg options of
                        None \<Rightarrow> w
                      | Some ms \<Rightarrow> if ms \<noteq> 0 then emit (SetTimeout ms) w else w)"
  have w1: "fetches (log w1) = fetches (log w)"
    by (simp add: w1_def fetches_append split: option.splits)
  obtain res w2 where f: "fetch (baseUrl cfg @ endpoint) ?init n w1 = (res, w2)"
    by (cases "fetch (baseUrl cfg @ endpoint) ?init n w1") auto
  have w2: "fetches (log w2) = fetches (log w) @ [(baseUrl cfg @ endpoint, ?init)]"
    using fetch_log(1) [of "baseUrl cfg @ endpoint" ?init n w1] f w1 by simp
  have "fetches (log (snd (request P cfg endpoint options n w))) = fetches (log w2)"
  proof (cases res)
    case (Returned r)
    obtain res' w3 where h: "handle_response P cfg (timer_armed cfg options) r w2 = (res', w3)"
      by (cases "handle_response P cfg (timer_armed cfg options) r w2") auto
    have w3: "fetches (log w3) = fetches (log w2)"
      using handle_response_log(1) [of P cfg "timer_armed cfg options" r w2] h by simp
    show ?thesis
      using assms f Returned h w3
      by (cases res') (simp_all add: request_def Let_def w1_def [symmetric] request_catch_log)
  next
    case (Thrown e)
    then show ?thesis
      using assms f by (simp add: request_def Let_def w1_def [symmetric] request_catch_log)
  next
    case Pending
    then show ?thesis
      using assms f by (simp add: request_def Let_def w1_def [symmetric])
  qed
  then show ?thesis using w2 by simp
qed

subsection \<open>The request pipeline\<close>

text \<open>
  Claim C3. When a request that found a stored token receives an HTTP 401 response, the
  pipeline removes the token from storage, once, and throws an \<^verbatim>\<open>ApiError\<close> with
  status 401, error code \<^verbatim>\<open>AUTH_001\<close> and \<open>canRetry\<close> false. Besides arming and
  clearing its timer, its effects are the one call of \<^verbatim>\<open>fetch\<close> and the one
  \<^verbatim>\<open>removeItem\<close>: it performs no redirect.
\<close>

theorem request_401:
  assumes "has_window w" and "storage w (tokenKey cfg) = Some tok" and "tok \<noteq> []"
    and "resp_status r = 401"
  shows "request P cfg endpoint options (Responds r) w =
           (Thrown (ApiErr \<lparr>message = ''Unauthorized access'', status = 401,
              errorCode = JStr ''AUTH_001'', timestamp = now_iso P, canRetry = False\<rparr>),
            w\<lparr>storage := (storage w)(tokenKey cfg := None),
              log := log w
                @ (if timer_armed cfg options then [SetTimeout (timeout cfg)] else [])
                @ [Fetch (baseUrl cfg @ endpoint)
                     \<lparr>f_method = req_method options, f_headers = request_headers tok options,
                      f_body = body options, f_signal = timer_armed cfg options\<rparr>]
                @ (if timer_armed cfg options then [ClearTimeout] else [])
                @ [RemoveItem (tokenKey cfg)]
                @ (if timer_armed cfg options then [ClearTimeout] else [])\<rparr>)
       \<and> count_list (log (snd (request P cfg endpoint options (Responds r) w)))
             (RemoveItem (tokenKey cfg)) =
           count_list (log w) (RemoveItem (tokenKey cfg)) + 1"
  using assms
  by (auto simp add: request_def fetch_def handle_response_def request_catch_def
        timer_armed_def request_timeout_def Let_def emit_def removeItem_def
      split: option.splits)

theorem request_401_witness:
  "request sample_platform (apiClient sample_platform) ''/api/v1/tasks''
     \<lparr>req_method = Some ''GET'', headers = None, body = None, signal = None\<rparr>
     (Responds \<lparr>resp_status = 401, resp_json = None\<rparr>) (sample_world ''a.b.c'') =
   (Thrown (ApiErr \<lparr>message = ''Unauthorized access'', status = 401,
      errorCode = JStr ''AUTH_001'', timestamp = ''2023-11-14T22:13:20.999Z'',
      canRetry = False\<rparr>),
    \<lparr>has_window = True, storage = Map.empty,
     log = [SetTimeout 10000,
            Fetch ''http://localhost:8000/api/v1/tasks''
              \<lparr>f_method = Some ''GET'',
               f_headers = [(''Content-Type'', ''application/json''),
                            (''Authorization'', ''Bearer a.b.c'')],
               f_body = None, f_signal = True\<rparr>,
            ClearTimeout, RemoveItem ''auth_token'', ClearTimeout]\<rparr>)"
  using request_401 [of "sample_world ''a.b.c''" "apiClient sample_platform" "''a.b.c''"
      "\<lparr>resp_status = 401, resp_json = None\<rparr>" sample_platform "''/api/v1/tasks''"
      "\<lparr>req_method = Some ''GET'', headers = None, body = None, signal = None\<rparr>"]
  by (simp add: sample_world_def sample_platform_def apiClient_def timer_armed_def
        request_timeout_def request_headers_def spread_def)

text \<open>A failure of the network call other than a \<^verbatim>\<open>TypeError\<close> named
  \<^verbatim>\<open>AbortError\<close> becomes the network error; only that one becomes the timeout error.\<close>

lemma request_network_failure:
  assumes "has_window w" and "storage w (tokenKey cfg) = Some tok" and "tok \<noteq> []"
  shows "fst (request P cfg endpoint options (Fails c nm) w) =
           Thrown (ApiErr
             (if c = TypeError \<and> nm = ''AbortError''
              then \<lparr>message = ''Request timeout'', status = 0, errorCode = JNull,
                     timestamp = now_iso P, canRetry = True\<rparr>
              else \<lparr>message = ''Network error. Check your connection.'', status = 0,
                     errorCode = JNull, timestamp = now_iso P, canRetry = True\<rparr>))"
  using assms
  by (simp add: request_def fetch_def request_catch_def Let_def split: option.splits)

text \<open>
  Claim C1 says that a fired timer yields the message \<^verbatim>\<open>Request timeout\<close>. The code
  does otherwise: when the built-in timer fires, \<^verbatim>\<open>fetch\<close> rejects with a
  \<^verbatim>\<open>DOMException\<close> named \<^verbatim>\<open>AbortError\<close>, the \<^verbatim>\<open>catch\<close> block asks for a
  \<^verbatim>\<open>TypeError\<close> of that name, and the pipeline throws the \<^verbatim>\<open>ApiError\<close> with message
  \<^verbatim>\<open>Network error. Check your connection.\<close>, status 0, no error code and
  \<open>canRetry\<close> true, after clearing the timer.
\<close>

theorem request_timer_fired:
  assumes "has_window w" and "storage w (tokenKey cfg) = Some tok" and "tok \<noteq> []"
    and "timer_armed cfg options"
  shows "request P cfg endpoint options Hangs w =
           (Thrown (ApiErr \<lparr>message = ''Network error. Check your connection.'', status = 0,
              errorCode = JNull, timestamp = now_iso P, canRetry = True\<rparr>),
            w\<lparr>log := log w
                @ [SetTimeout (timeout cfg),
                   Fetch (baseUrl cfg @ endpoint)
                     \<lparr>f_method = req_method options, f_headers = request_headers tok options,
                      f_body = body options, f_signal = True\<rparr>,
                   Abort, ClearTimeout]\<rparr>)"
  using assms
  by (auto simp add: request_def fetch_def request_catch_def timer_armed_def
        request_timeout_def Let_def emit_def split: option.splits)

theorem request_timer_fired_witness:
  "get sample_platform (apiClient sample_platform) ''/api/v1/tasks'' None Hangs
     (sample_world ''a.b.c'') =
   (Thrown (ApiErr \<lparr>message = ''Network error. Check your connection.'', status = 0,
      errorCode = JNull, timestamp = ''2023-11-14T22:13:20.999Z'', canRetry = True\<rparr>),
    \<lparr>has_window = True, storage = [''auth_token'' \<mapsto> ''a.b.c''],
     log = [SetTimeout 10000,
            Fetch ''http://localhost:8000/api/v1/tasks''
              \<lparr>f_method = Some ''GET'',
               f_headers = [(''Content-Type'', ''application/json''),
                            (''Authorization'', ''Bearer a.b.c'')],
               f_body = None, f_signal = True\<rparr>,
            Abort, ClearTimeout]\<rparr>)"
  using request_timer_fired [of "sample_world ''a.b.c''" "apiClient sample_platform" "''a.b.c''"
      "\<lparr>req_method = Some ''GET'', headers = None, body = None, signal = None\<rparr>"
      sample_platform "''/api/v1/tasks''"]
  by (simp add: get_def options_headers_def sample_world_def sample_platform_def apiClient_def
        timer_armed_def request_timeout_def request_headers_def spread_def)

text \<open>For an error response other than 401 whose body is not the JSON literal
  \<^verbatim>\<open>null\<close>, the \<^verbatim>\<open>ApiError\<close> thrown carries the status, \<open>canRetry\<close> is
  \<open>status \<ge> 500 \<or> status = 0\<close>, and the statuses 500 and 404 have their fixed messages.\<close>

lemma request_error_status:
  assumes "has_window w" and "storage w (tokenKey cfg) = Some tok" and "tok \<noteq> []"
    and "\<not> ok r" and "resp_status r \<noteq> 401"
    and "resp_json r \<noteq> Some JNull" and "resp_json r \<noteq> Some JUndefined"
  shows "\<exists>a. fst (request P cfg endpoint options (Responds r) w) = Thrown (ApiErr a)
           \<and> status a = resp_status r
           \<and> canRetry a = (resp_status r \<ge> 500 \<or> resp_status r = 0)
           \<and> (resp_status r = 500 \<longrightarrow> message a = ''Something went wrong. Please try again.'')
           \<and> (resp_status r = 404 \<longrightarrow> message a = ''The requested item was not found'')"
proof -
  define d where "d = (case resp_json r of None \<Rightarrow> JObj [] | Some v \<Rightarrow> v)"
  have nn: "d \<noteq> JNull" "d \<noteq> JUndefined"
    using assms(6,7) by (auto simp: d_def split: option.splits)
  then have p: "\<exists>v. get_prop d k = Inr v" for k
    by (cases d) auto
  obtain c1 where c1: "get_prop d ''error_code'' = Inr c1" using p by blast
  obtain c2 where c2: "get_prop d ''errorCode'' = Inr c2" using p by blast
  obtain m where m: "get_prop d ''message'' = Inr m" using p by blast
  have "\<exists>msg. status_message (resp_status r) d = Inr msg"
    by (simp add: status_message_def m)
  then obtain msg where msg: "status_message (resp_status r) d = Inr msg" ..
  have m500: "resp_status r = 500 \<Longrightarrow> msg = ''Something went wrong. Please try again.''"
    using msg by (simp add: status_message_def)
  have m404: "resp_status r = 404 \<Longrightarrow> msg = ''The requested item was not found''"
    using msg by (simp add: status_message_def)
  have e: "error_of_response P r =
      ApiErr \<lparr>message = msg, status = resp_status r,
        errorCode = (if truthy c1 then c1 else js_or c2 JNull), timestamp = now_iso P,
        canRetry = (resp_status r \<ge> 500 \<or> resp_status r = 0)\<rparr>"
    using c1 c2 msg by (simp add: error_of_response_def d_def [symmetric])
  have "fst (request P cfg endpoint options (Responds r) w) = Thrown (error_of_response P r)"
    using assms(1-5)
    by (simp add: request_def fetch_def handle_response_def Let_def e request_catch_def
          split: option.splits)
  then show ?thesis
    using e m500 m404 by auto
qed

text \<open>
  Claim C7 says that every response outside 2xx other than 401 yields an \<^verbatim>\<open>ApiError\<close>
  whose \<open>canRetry\<close> is \<open>status \<ge> 500 \<or> status = 0\<close>, with the fixed messages for 500
  and 404. The code does otherwise when the error body is the JSON literal \<^verbatim>\<open>null\<close>:
  reading \<^verbatim>\<open>errorData.error_code\<close> throws a \<^verbatim>\<open>TypeError\<close>, which the \<^verbatim>\<open>catch\<close>
  block turns into the network error, with status 0 and \<open>canRetry\<close> true whatever the
  status of the response.
\<close>

theorem request_null_error_body:
  assumes "has_window w" and "storage w (tokenKey cfg) = Some tok" and "tok \<noteq> []"
    and "\<not> ok r" and "resp_status r \<noteq> 401" and "resp_json r = Some JNull"
  shows "fst (request P cfg endpoint options (Responds r) w) =
           Thrown (ApiErr \<lparr>message = ''Network error. Check your connection.'', status = 0,
             errorCode = JNull, timestamp = now_iso P, canRetry = True\<rparr>)"
  using assms
  by (simp add: request_def fetch_def handle_response_def error_of_response_def
        request_catch_def Let_def split: option.splits)

theorem request_null_error_body_witness:
  "fst (get sample_platform (apiClient sample_platform) ''/api/v1/tasks/7'' None
     (Responds \<lparr>resp_status = 404, resp_json = Some JNull\<rparr>) (sample_world ''a.b.c'')) =
   Thrown (ApiErr \<lparr>message = ''Network error. Check your connection.'', status = 0,
     errorCode = JNull, timestamp = ''2023-11-14T22:13:20.999Z'', canRetry = True\<rparr>)"
  using request_null_error_body [of "sample_world ''a.b.c''" "apiClient sample_platform"
      "''a.b.c''" "\<lparr>resp_status = 404, resp_json = Some JNull\<rparr>" sample_platform
      "''/api/v1/tasks/7''"
      "\<lparr>req_method = Some ''GET'', headers = None, body = None, signal = None\<rparr>"]
  by (simp add: get_def options_headers_def sample_world_def sample_platform_def apiClient_def
        ok_def)

text \<open>
  Claim C2, amended. For every call through the pipeline that found a stored token, the
  headers sent are the two defaults, \<^verbatim>\<open>Content-Type: application/json\<close> and
  \<^verbatim>\<open>Authorization: Bearer <token>\<close>, overridden by the headers of the caller: a header
  of the caller takes precedence over a default of the same name, \<^verbatim>\<open>Authorization\<close>
  included. So the \<^verbatim>\<open>Authorization\<close> header sent is \<^verbatim>\<open>Bearer <token>\<close> when the
  caller passes none, and the caller's own otherwise.
\<close>

theorem request_headers_merge:
  assumes "has_window w" and "storage w (tokenKey cfg) = Some tok" and "tok \<noteq> []"
  shows "map (\<lambda>c. f_headers (snd c)) (fetches (log (snd (request P cfg endpoint options n w)))) =
           map (\<lambda>c. f_headers (snd c)) (fetches (log w)) @ [request_headers tok options]
       \<and> map_of (request_headers tok options) =
           [''Content-Type'' \<mapsto> ''application/json'', ''Authorization'' \<mapsto> ''Bearer '' @ tok]
           ++ map_of (rev (caller_headers options))
       \<and> map_of (request_headers tok options) ''Authorization'' =
           Some (case map_of (rev (caller_headers options)) ''Authorization'' of
                   None \<Rightarrow> ''Bearer '' @ tok
                 | Some v \<Rightarrow> v)"
proof -
  have m: "map_of (request_headers tok options) =
           [''Content-Type'' \<mapsto> ''application/json'', ''Authorization'' \<mapsto> ''Bearer '' @ tok]
           ++ map_of (rev (caller_headers options))"
    by (auto simp add: request_headers_def caller_headers_def map_of_spread fun_eq_iff
          map_add_def split: option.splits)
  show ?thesis
    using request_fetches [OF assms, of P endpoint options n]
    by (simp add: m map_add_def split: option.splits)
qed

theorem request_headers_merge_witness:
  "map (\<lambda>c. f_headers (snd c))
     (fetches (log (snd (request sample_platform (apiClient sample_platform) ''/api/v1/tasks''
        \<lparr>req_method = Some ''GET'', headers = Some [(''X-Trace'', ''1'')], body = None, signal = None\<rparr>
        Hangs (sample_world ''a.b.c''))))) =
   [[(''Content-Type'', ''application/json''), (''Authorization'', ''Bearer a.b.c''),
     (''X-Trace'', ''1'')]]"
  using request_headers_merge [of "sample_world ''a.b.c''" "apiClient sample_platform" "''a.b.c''"
      sample_platform "''/api/v1/tasks''"
      "\<lparr>req_method = Some ''GET'', headers = Some [(''X-Trace'', ''1'')], body = None, signal = None\<rparr>"
      Hangs]
  by (simp add: sample_world_def apiClient_def request_headers_def spread_def)

text \<open>The claim as stated fails: with the token \<^verbatim>\<open>a.b.c\<close> stored, a caller who passes
  \<^verbatim>\<open>Authorization: Basic x\<close> has that header sent, not \<^verbatim>\<open>Bearer a.b.c\<close>.\<close>

theorem caller_authorization_replaces_bearer:
  "getAuthToken (sample_world ''a.b.c'') = Some ''a.b.c''
   \<and> map (\<lambda>c. map_of (f_headers (snd c)) ''Authorization'')
       (fetches (log (snd (get sample_platform (apiClient sample_platform) ''/api/v1/tasks''
          (Some \<lparr>opt_headers = Some [(''Authorization'', ''Basic x'')], opt_timeout = None\<rparr>)
          (Responds \<lparr>resp_status = 200, resp_json = Some (JArr [])\<rparr>)
          (sample_world ''a.b.c''))))) = [Some ''Basic x'']
   \<and> ''Basic x'' \<noteq> ''Bearer a.b.c''"
  by (simp add: getAuthToken_def sample_world_def sample_platform_def apiClient_def get_def
        options_headers_def request_def fetch_def handle_response_def ok_def timer_armed_def
        request_timeout_def request_headers_def spread_def Let_def)

subsection \<open>The session check\<close>

text \<open>
  Claim C5. For every stored token that does not split on \<^verbatim>\<open>.\<close> into exactly three
  segments, \<^verbatim>\<open>checkAuthState\<close> returns the unauthenticated state
  \<^verbatim>\<open>{isAuthenticated: false, user: null}\<close> and leaves the world as it was: the token stays
  in storage and no effect is performed.
\<close>

theorem checkAuthState_malformed:
  assumes "storage w ''auth_token'' = Some tok" and "length (split_on CHR ''.'' tok) \<noteq> 3"
  shows "checkAuthState P w = (\<lparr>isAuthenticated = False, currentUser = None\<rparr>, w)"
  using assms by (simp add: checkAuthState_def getAuthToken_def Let_def)

theorem checkAuthState_malformed_witness:
  "length (split_on CHR ''.'' ''a.b'') = 2
   \<and> checkAuthState sample_platform (sample_world ''a.b'') =
       (\<lparr>isAuthenticated = False, currentUser = None\<rparr>, sample_world ''a.b'')
   \<and> getAuthToken (sample_world ''a.b'') = Some ''a.b''"
  using checkAuthState_malformed [of "sample_world ''a.b''" "''a.b''" sample_platform]
  by (simp add: sample_world_def getAuthToken_def)

lemma get_prop_total: "get_prop v k = Inr x \<Longrightarrow> \<exists>y. get_prop v k' = Inr y"
  by (cases v) auto

text \<open>A token of three segments whose payload decodes to a numeric expiry other than 0
  that lies before the current time in whole seconds is removed, and the state returned
  is the unauthenticated one.\<close>

lemma checkAuthState_expired:
  assumes "has_window w" and "storage w ''auth_token'' = Some tok"
    and "split_on CHR ''.'' tok = [h, p, s]"
    and "parse_payload P p = Inr payload"
    and "get_prop payload ''exp'' = Inr (JNum e)"
    and "e \<noteq> 0" and "e < now_ms P div 1000"
  shows "checkAuthState P w = (\<lparr>isAuthenticated = False, currentUser = None\<rparr>, removeAuthToken w)"
proof -
  have tok: "tok \<noteq> []" using assms(3) by auto
  obtain sub where sub: "get_prop payload ''sub'' = Inr sub"
    using get_prop_total [OF assms(5)] by blast
  obtain em where em: "get_prop payload ''email'' = Inr em"
    using get_prop_total [OF assms(5)] by blast
  have "check_payload P p w =
      Inr (\<lparr>isAuthenticated = False, currentUser = None\<rparr>, removeAuthToken w)"
    using assms(4-7) sub em by (simp add: check_payload_def js_less_def Let_def)
  then show ?thesis
    using assms(1-3) tok by (simp add: checkAuthState_def getAuthToken_def Let_def)
qed

lemma checkAuthState_expired_example:
  "checkAuthState sample_platform (sample_world ''h.eyJleHAiOjV9.s'') =
     (\<lparr>isAuthenticated = False, currentUser = None\<rparr>,
      \<lparr>has_window = True, storage = Map.empty, log = [RemoveItem ''auth_token'']\<rparr>)"
  by (simp add: sample_world_def sample_platform_def getAuthToken_def checkAuthState_def
        check_payload_def js_or_def js_less_def removeAuthToken_def removeItem_def emit_def Let_def)


text \<open>
  Claim C4 says that every stored token whose payload decodes to an expiry before the
  current time is removed and gives the unauthenticated state. The code does otherwise
  for the expiry 0: the test \<^verbatim>\<open>payload.exp && payload.exp < currentTime\<close> takes the
  number 0 for an absent claim, so a token of three segments whose payload carries
  \<^verbatim>\<open>exp: 0\<close> is reported authenticated and stays in storage, whatever the clock says.
\<close>

theorem checkAuthState_exp_zero:
  assumes "has_window w" and "storage w ''auth_token'' = Some tok"
    and "split_on CHR ''.'' tok = [h, p, s]"
    and "parse_payload P p = Inr payload"
    and "get_prop payload ''exp'' = Inr (JNum 0)"
  shows "isAuthenticated (fst (checkAuthState P w)) \<and> snd (checkAuthState P w) = w"
proof -
  have tok: "tok \<noteq> []" using assms(3) by auto
  obtain sub where sub: "get_prop payload ''sub'' = Inr sub"
    using get_prop_total [OF assms(5)] by blast
  obtain em where em: "get_prop payload ''email'' = Inr em"
    using get_prop_total [OF assms(5)] by blast
  have "check_payload P p w =
      Inr (\<lparr>isAuthenticated = True,
             currentUser = Some \<lparr>userId = sub, email = js_or em (JStr [])\<rparr>\<rparr>, w)"
    using assms(4,5) sub em by (simp add: check_payload_def Let_def)
  then show ?thesis
    using assms(1-3) tok by (simp add: checkAuthState_def getAuthToken_def Let_def)
qed

theorem checkAuthState_exp_zero_witness:
  "0 < now_ms sample_platform div 1000
   \<and> checkAuthState sample_platform (sample_world ''h.eyJleHAiOjB9.s'') =
       (\<lparr>isAuthenticated = True,
          currentUser = Some \<lparr>userId = JUndefined, email = JStr []\<rparr>\<rparr>,
        sample_world ''h.eyJleHAiOjB9.s'')
   \<and> getAuthToken (sample_world ''h.eyJleHAiOjB9.s'') = Some ''h.eyJleHAiOjB9.s''"
  using checkAuthState_exp_zero [of "sample_world ''h.eyJleHAiOjB9.s''" "''h.eyJleHAiOjB9.s''"
      "''h''" "''eyJleHAiOjB9''" "''s''" sample_platform "JObj [(''exp'', JNum 0)]"]
  by (simp add: sample_world_def sample_platform_def getAuthToken_def checkAuthState_def
        check_payload_def js_or_def Let_def)

subsection \<open>Refreshing and signing in\<close>

lemma refreshToken_never_throws: "fst (refreshToken P n w) \<noteq> Thrown e"
  by (cases n)
     (auto simp add: refreshToken_def fetch_def Let_def
        split: option.splits sum.splits prod.splits outcome.splits if_splits)

lemma removeAuthToken_get: "getAuthToken (removeAuthToken w) = None"
  by (simp add: getAuthToken_def removeAuthToken_def)

lemma setAuthToken_get: "has_window w \<Longrightarrow> getAuthToken (setAuthToken t w) = Some t"
  by (simp add: getAuthToken_def setAuthToken_def)

text \<open>
  Claim C6. \<^verbatim>\<open>refreshToken\<close> never throws. With no stored token (or an empty one) it
  returns \<^verbatim>\<open>null\<close> and leaves the world as it was, so it issues no network call. With
  a stored token it returns \<^verbatim>\<open>null\<close> and removes the token on a response outside 2xx
  and on a thrown error (the network call fails, the body does not parse, or the body is
  \<^verbatim>\<open>null\<close>); on a 2xx response whose body carries the string \<^verbatim>\<open>access_token\<close> it
  stores that token and returns it.
\<close>

theorem refreshToken_contract:
  "fst (refreshToken P n w) \<noteq> Thrown e
   \<and> (getAuthToken w = None \<or> getAuthToken w = Some [] \<longrightarrow>
        refreshToken P n w = (Returned JNull, w))
   \<and> (getAuthToken w = Some tok \<and> tok \<noteq> [] \<and> n = Responds r \<and> \<not> ok r \<longrightarrow>
        fst (refreshToken P n w) = Returned JNull
        \<and> getAuthToken (snd (refreshToken P n w)) = None)
   \<and> (getAuthToken w = Some tok \<and> tok \<noteq> []
        \<and> (n = Fails c nm
           \<or> n = Responds r \<and> ok r
              \<and> (resp_json r = None \<or> resp_json r = Some JNull
                 \<or> resp_json r = Some JUndefined)) \<longrightarrow>
        fst (refreshToken P n w) = Returned JNull
        \<and> getAuthToken (snd (refreshToken P n w)) = None)
   \<and> (getAuthToken w = Some tok \<and> tok \<noteq> [] \<and> n = Responds r \<and> ok r
        \<and> resp_json r = Some (JObj kvs) \<and> map_of kvs ''access_token'' = Some (JStr t) \<longrightarrow>
        fst (refreshToken P n w) = Returned (JStr t)
        \<and> getAuthToken (snd (refreshToken P n w)) = Some t)"
proof (intro conjI impI)
  show "fst (refreshToken P n w) \<noteq> Thrown e"
    by (rule refreshToken_never_throws)
next
  assume "getAuthToken w = None \<or> getAuthToken w = Some []"
  then show "refreshToken P n w = (Returned JNull, w)"
    by (auto simp add: refreshToken_def)
next
  assume a: "getAuthToken w = Some tok \<and> tok \<noteq> [] \<and> n = Responds r \<and> \<not> ok r"
  then show "fst (refreshToken P n w) = Returned JNull"
    by (simp add: refreshToken_def fetch_def Let_def)
  from a show "getAuthToken (snd (refreshToken P n w)) = None"
    by (simp add: refreshToken_def fetch_def Let_def removeAuthToken_get)
next
  assume a: "getAuthToken w = Some tok \<and> tok \<noteq> []
        \<and> (n = Fails c nm
           \<or> n = Responds r \<and> ok r
              \<and> (resp_json r = None \<or> resp_json r = Some JNull
                 \<or> resp_json r = Some JUndefined))"
  then show "fst (refreshToken P n w) = Returned JNull"
    by (auto simp add: refreshToken_def fetch_def Let_def)
  from a show "getAuthToken (snd (refreshToken P n w)) = None"
    by (auto simp add: refreshToken_def fetch_def Let_def removeAuthToken_get)
next
  assume a: "getAuthToken w = Some tok \<and> tok \<noteq> [] \<and> n = Responds r \<and> ok r
        \<and> resp_json r = Some (JObj kvs) \<and> map_of kvs ''access_token'' = Some (JStr t)"
  then have hw: "has_window w"
    by (auto simp add: getAuthToken_def split: if_splits)
  from a show "fst (refreshToken P n w) = Returned (JStr t)"
    by (simp add: refreshToken_def fetch_def Let_def)
  from a hw show "getAuthToken (snd (refreshToken P n w)) = Some t"
    by (simp add: refreshToken_def fetch_def Let_def setAuthToken_get)
qed

theorem refreshToken_contract_witness:
  "refreshToken sample_platform Hangs
     \<lparr>has_window = True, storage = Map.empty, log = []\<rparr> =
     (Returned JNull, \<lparr>has_window = True, storage = Map.empty, log = []\<rparr>)
   \<and> fst (refreshToken sample_platform
        (Responds \<lparr>resp_status = 401, resp_json = None\<rparr>) (sample_world ''a.b.c'')) = Returned JNull
   \<and> getAuthToken (snd (refreshToken sample_platform
        (Responds \<lparr>resp_status = 401, resp_json = None\<rparr>) (sample_world ''a.b.c''))) = None
   \<and> fst (refreshToken sample_platform (Fails TypeError ''TypeError'') (sample_world ''a.b.c'')) =
       Returned JNull
   \<and> getAuthToken (snd (refreshToken sample_platform (Fails TypeError ''TypeError'')
        (sample_world ''a.b.c''))) = None
   \<and> fst (refreshToken sample_platform
        (Responds \<lparr>resp_status = 200, resp_json = Some (JObj [(''access_token'', JStr ''d.e.f'')])\<rparr>)
        (sample_world ''a.b.c'')) = Returned (JStr ''d.e.f'')
   \<and> getAuthToken (snd (refreshToken sample_platform
        (Responds \<lparr>resp_status = 200, resp_json = Some (JObj [(''access_token'', JStr ''d.e.f'')])\<rparr>)
        (sample_world ''a.b.c''))) = Some ''d.e.f''"
  using
    refreshToken_contract [of sample_platform Hangs
      "\<lparr>has_window = True, storage = Map.empty, log = []\<rparr>"]
    refreshToken_contract [of sample_platform "Responds \<lparr>resp_status = 401, resp_json = None\<rparr>"
      "sample_world ''a.b.c''" _ "''a.b.c''" "\<lparr>resp_status = 401, resp_json = None\<rparr>"]
    refreshToken_contract [of sample_platform "Fails TypeError ''TypeError''"
      "sample_world ''a.b.c''" _ "''a.b.c''" _ TypeError "''TypeError''"]
    refreshToken_contract [of sample_platform
      "Responds \<lparr>resp_status = 200, resp_json = Some (JObj [(''access_token'', JStr ''d.e.f'')])\<rparr>"
      "sample_world ''a.b.c''" _ "''a.b.c''"
      "\<lparr>resp_status = 200, resp_json = Some (JObj [(''access_token'', JStr ''d.e.f'')])\<rparr>"
      _ _ "[(''access_token'', JStr ''d.e.f'')]" "''d.e.f''"]
  by (simp add: getAuthToken_def sample_world_def ok_def)

text \<open>
  Claim C9. For every 2xx response whose body is an object with \<^verbatim>\<open>access_token\<close> the
  string \<open>t\<close> and \<^verbatim>\<open>user\<close> the value \<open>u\<close>, \<^verbatim>\<open>signIn\<close> returns
  \<^verbatim>\<open>{user: u, token: t}\<close> and hands \<open>t\<close>, unchanged, to the token store after its one
  network call; in a browser the token store then holds \<open>t\<close>.
\<close>

theorem signIn_roundtrip:
  assumes "ok r" and "resp_json r = Some (JObj kvs)"
    and "map_of kvs ''access_token'' = Some (JStr t)" and "map_of kvs ''user'' = Some u"
  shows "signIn P em pw (Responds r) w =
           (Returned \<lparr>user = u, token = JStr t\<rparr>,
            setAuthToken t
              (emit (Fetch (API_BASE_URL P @ ''/api/v1/auth/signin'')
                 \<lparr>f_method = Some ''POST'',
                  f_headers = [(''Content-Type'', ''application/json'')],
                  f_body = Some (JObj [(''email'', JStr em), (''password'', JStr pw)]),
                  f_signal = False\<rparr>) w))
       \<and> (has_window w \<longrightarrow> getAuthToken (snd (signIn P em pw (Responds r) w)) = Some t)"
  using assms
  by (simp add: signIn_def fetch_def Let_def setAuthToken_get)

theorem signIn_roundtrip_witness:
  "signIn sample_platform ''x'' ''pw''
     (Responds \<lparr>resp_status = 200,
        resp_json = Some (JObj [(''access_token'', JStr ''a.b.c''),
          (''user'', JObj [(''id'', JNum 1), (''email'', JStr ''x'')])])\<rparr>)
     \<lparr>has_window = True, storage = Map.empty, log = []\<rparr> =
   (Returned \<lparr>user = JObj [(''id'', JNum 1), (''email'', JStr ''x'')], token = JStr ''a.b.c''\<rparr>,
    \<lparr>has_window = True, storage = [''auth_token'' \<mapsto> ''a.b.c''],
     log = [Fetch ''http://127.0.0.1:8000/api/v1/auth/signin''
              \<lparr>f_method = Some ''POST'',
               f_headers = [(''Content-Type'', ''application/json'')],
               f_body = Some (JObj [(''email'', JStr ''x''), (''password'', JStr ''pw'')]),
               f_signal = False\<rparr>,
            SetItem ''auth_token'' ''a.b.c'']\<rparr>)
   \<and> getAuthToken (snd (signIn sample_platform ''x'' ''pw''
     (Responds \<lparr>resp_status = 200,
        resp_json = Some (JObj [(''access_token'', JStr ''a.b.c''),
          (''user'', JObj [(''id'', JNum 1), (''email'', JStr ''x'')])])\<rparr>)
     \<lparr>has_window = True, storage = Map.empty, log = []\<rparr>)) = Some ''a.b.c''"
  using signIn_roundtrip [of "\<lparr>resp_status = 200,
        resp_json = Some (JObj [(''access_token'', JStr ''a.b.c''),
          (''user'', JObj [(''id'', JNum 1), (''email'', JStr ''x'')])])\<rparr>"
      "[(''access_token'', JStr ''a.b.c''), (''user'', JObj [(''id'', JNum 1), (''email'', JStr ''x'')])]"
      "''a.b.c''" "JObj [(''id'', JNum 1), (''email'', JStr ''x'')]" sample_platform "''x''" "''pw''"
      "\<lparr>has_window = True, storage = Map.empty, log = []\<rparr>"]
  by (simp add: ok_def API_BASE_URL_def sample_platform_def setAuthToken_def setItem_def emit_def
        getAuthToken_def)

subsection \<open>The task list query\<close>

lemma urlencode_append: "urlencode (a @ b) = urlencode a @ urlencode b"
  by (simp add: urlencode_def)

lemma urlencode_digit: "d < 10 \<Longrightarrow> urlencode_byte (digit_char d) = [digit_char d]"
  by (simp add: urlencode_byte_def digit_char_def Let_def)

lemma urlencode_nat: "urlencode (nat_to_string n) = nat_to_string n"
proof (induction n rule: nat_to_string.induct)
  case (1 n)
  show ?case
  proof (cases "n < 10")
    case True
    then show ?thesis
      by (subst (1 2) nat_to_string.simps) (simp add: urlencode_def urlencode_digit)
  next
    case False
    have d: "urlencode [digit_char (n mod 10)] = [digit_char (n mod 10)]"
      by (simp add: urlencode_def urlencode_digit)
    from False show ?thesis
      by (subst (1 2) nat_to_string.simps) (simp add: urlencode_append "1.IH" d)
  qed
qed

lemma urlencode_num: "urlencode (num_to_string n) = num_to_string n"
proof -
  have "urlencode ''-'' = ''-''"
    by (simp add: urlencode_def urlencode_byte_def)
  then show ?thesis
    using urlencode_append [of "''-''"] by (simp add: num_to_string_def urlencode_nat)
qed

lemma urlencode_names:
  "urlencode ''is_completed'' = ''is_completed''"
  "urlencode ''limit'' = ''limit''"
  "urlencode ''offset'' = ''offset''"
  "urlencode ''true'' = ''true''"
  "urlencode ''false'' = ''false''"
  by (simp_all add: urlencode_def urlencode_byte_def)

lemma params_toString_defined:
  "params_toString (defined_params params) =
     join_amp (map (\<lambda>kv. fst kv @ ''='' @ snd kv) (defined_params params))"
  by (simp add: params_toString_def defined_params_def urlencode_names urlencode_num
        split: option.splits)

lemma join_amp_empty: "join_amp (map (\<lambda>kv. fst kv @ CHR ''='' # snd kv) ps) = [] \<longleftrightarrow> ps = []"
  by (induction ps rule: induct_list012) auto

lemma getTasks_endpoint_examples:
  "getTasks_endpoint (Some \<lparr>is_completed = None, limit = Some 10, offset = Some 0\<rparr>) =
     ''/api/v1/tasks?limit=10&offset=0''"
  "getTasks_endpoint None = ''/api/v1/tasks''"
  "getTasks_endpoint (Some \<lparr>is_completed = Some False, limit = None, offset = Some 25\<rparr>) =
     ''/api/v1/tasks?is_completed=false&offset=25''"
  by code_simp+

lemma getTasks_endpoint_defined:
  "getTasks_endpoint params =
     ''/api/v1/tasks''
     @ (if defined_params params = [] then []
        else ''?'' @ join_amp (map (\<lambda>kv. fst kv @ ''='' @ snd kv) (defined_params params)))"
proof -
  have "getTasks_endpoint params =
      (if params_toString (defined_params params) \<noteq> []
       then ''/api/v1/tasks?'' @ params_toString (defined_params params) else ''/api/v1/tasks'')"
    by (simp add: getTasks_endpoint_def defined_params_def Let_def split: option.splits)
  then show ?thesis
    by (simp add: params_toString_defined join_amp_empty)
qed

subsection \<open>Calls, timers and the public verbs\<close>

lemma request_no_token:
  assumes "\<not> (has_window w \<and> storage w (tokenKey cfg) \<noteq> None \<and> storage w (tokenKey cfg) \<noteq> Some [])"
  shows "snd (request P cfg endpoint options n w) = w"
  using assms by (auto simp add: request_def split: option.splits)

lemma request_timers:
  "timers (log (snd (request P cfg endpoint options n w))) =
     timers (log w)
     @ (if has_window w \<and> storage w (tokenKey cfg) \<noteq> None \<and> storage w (tokenKey cfg) \<noteq> Some []
           \<and> timer_armed cfg options
        then [timeout cfg] else [])"
proof (cases "has_window w \<and> storage w (tokenKey cfg) \<noteq> None \<and> storage w (tokenKey cfg) \<noteq> Some []")
  case False
  then show ?thesis using request_no_token [of w cfg P endpoint options n] by auto
next
  case True
  then obtain tok where tok: "storage w (tokenKey cfg) = Some tok" "tok \<noteq> []" by auto
  define w1 where "w1 = (case request_timeout cfg options of
                        None \<Rightarrow> w
                      | Some ms \<Rightarrow> if ms \<noteq> 0 then emit (SetTimeout ms) w else w)"
  let ?init = "\<lparr>f_method = req_method options, f_headers = request_headers tok options,
                f_body = body options, f_signal = timer_armed cfg options\<rparr>"
  have w1: "timers (log w1) = timers (log w) @ (if timer_armed cfg options then [timeout cfg] else [])"
    by (auto simp add: w1_def timers_append timer_armed_def request_timeout_def split: option.splits)
  obtain res w2 where f: "fetch (baseUrl cfg @ endpoint) ?init n w1 = (res, w2)"
    by (cases "fetch (baseUrl cfg @ endpoint) ?init n w1") auto
  have w2: "timers (log w2) = timers (log w1)"
    using fetch_log(2) [of "baseUrl cfg @ endpoint" ?init n w1] f by simp
  have "timers (log (snd (request P cfg endpoint options n w))) = timers (log w2)"
  proof (cases res)
    case (Returned r)
    obtain res' w3 where h: "handle_response P cfg (timer_armed cfg options) r w2 = (res', w3)"
      by (cases "handle_response P cfg (timer_armed cfg options) r w2") auto
    have w3: "timers (log w3) = timers (log w2)"
      using handle_response_log(2) [of P cfg "timer_armed cfg options" r w2] h by simp
    show ?thesis
      using True tok f Returned h w3
      by (cases res') (simp_all add: request_def Let_def w1_def [symmetric] request_catch_log)
  next
    case (Thrown e)
    then show ?thesis
      using True tok f
      by (simp add: request_def Let_def w1_def [symmetric] request_catch_log)
  next
    case Pending
    then show ?thesis
      using True tok f by (simp add: request_def Let_def w1_def [symmetric])
  qed
  then show ?thesis using w1 w2 True by simp
qed


lemma request_urls:
  "map fst (fetches (log (snd (request P cfg endpoint options n w)))) =
     map fst (fetches (log w))
     @ (if has_window w \<and> storage w (tokenKey cfg) \<noteq> None \<and> storage w (tokenKey cfg) \<noteq> Some []
        then [baseUrl cfg @ endpoint] else [])"
proof (cases "has_window w \<and> storage w (tokenKey cfg) \<noteq> None \<and> storage w (tokenKey cfg) \<noteq> Some []")
  case False
  then show ?thesis using request_no_token [of w cfg P endpoint options n] by auto
next
  case True
  then obtain tok where "has_window w" "storage w (tokenKey cfg) = Some tok" "tok \<noteq> []" by auto
  from request_fetches [OF this, of P endpoint options n] True show ?thesis by simp
qed

text \<open>
  Claim C8. \<^verbatim>\<open>getTasks\<close> serialises exactly the parameters that are not
  \<^verbatim>\<open>undefined\<close>, as \<^verbatim>\<open>name=value\<close> joined by \<^verbatim>\<open>&\<close>, in the order
  \<^verbatim>\<open>is_completed\<close>, \<^verbatim>\<open>limit\<close>, \<^verbatim>\<open>offset\<close>, behind \<^verbatim>\<open>/api/v1/tasks?\<close>, and builds
  \<^verbatim>\<open>/api/v1/tasks\<close> alone when there is none. \<^verbatim>\<open>getTasks({limit: 10, offset: 0})\<close>
  gives \<^verbatim>\<open>/api/v1/tasks?limit=10&offset=0\<close>, and a call without parameters
  \<^verbatim>\<open>/api/v1/tasks\<close>. The one network call of \<^verbatim>\<open>getTasks\<close>, made when a token is
  stored, goes to the base URL followed by that endpoint.
\<close>

theorem getTasks_query_string:
  "getTasks_endpoint params =
     ''/api/v1/tasks''
     @ (if defined_params params = [] then []
        else ''?'' @ join_amp (map (\<lambda>kv. fst kv @ ''='' @ snd kv) (defined_params params)))
   \<and> getTasks_endpoint (Some \<lparr>is_completed = None, limit = Some 10, offset = Some 0\<rparr>) =
       ''/api/v1/tasks?limit=10&offset=0''
   \<and> getTasks_endpoint None = ''/api/v1/tasks''
   \<and> map fst (fetches (log (snd (getTasks P params n w)))) =
       map fst (fetches (log w))
       @ (if has_window w \<and> storage w ''auth_token'' \<noteq> None \<and> storage w ''auth_token'' \<noteq> Some []
          then [baseUrl (apiClient P) @ getTasks_endpoint params] else [])"
proof (intro conjI)
  show "getTasks_endpoint params =
     ''/api/v1/tasks''
     @ (if defined_params params = [] then []
        else ''?'' @ join_amp (map (\<lambda>kv. fst kv @ ''='' @ snd kv) (defined_params params)))"
    by (rule getTasks_endpoint_defined)
  show "getTasks_endpoint (Some \<lparr>is_completed = None, limit = Some 10, offset = Some 0\<rparr>) =
       ''/api/v1/tasks?limit=10&offset=0''"
    by (rule getTasks_endpoint_examples(1))
  show "getTasks_endpoint None = ''/api/v1/tasks''"
    by (rule getTasks_endpoint_examples(2))
  have k: "tokenKey (apiClient P) = ''auth_token''"
    by (simp add: apiClient_def)
  show "map fst (fetches (log (snd (getTasks P params n w)))) =
       map fst (fetches (log w))
       @ (if has_window w \<and> storage w ''auth_token'' \<noteq> None \<and> storage w ''auth_token'' \<noteq> Some []
          then [baseUrl (apiClient P) @ getTasks_endpoint params] else [])"
    using request_urls [of P "apiClient P" "getTasks_endpoint params" _ n w]
    by (simp add: getTasks_def get_def k)
qed

theorem getTasks_query_string_witness:
  "getTasks_endpoint (Some \<lparr>is_completed = Some False, limit = None, offset = Some 25\<rparr>) =
     ''/api/v1/tasks?is_completed=false&offset=25''
   \<and> map fst (fetches (log (snd (getTasks sample_platform
         (Some \<lparr>is_completed = None, limit = Some 10, offset = Some 0\<rparr>) Hangs
         (sample_world ''a.b.c''))))) =
       [''http://localhost:8000/api/v1/tasks?limit=10&offset=0'']"
proof -
  let ?p = "Some \<lparr>is_completed = None, limit = Some 10, offset = Some 0\<rparr>"
  note t = getTasks_query_string [of ?p sample_platform Hangs "sample_world ''a.b.c''"]
  from t [THEN conjunct2, THEN conjunct2, THEN conjunct2]
  have "map fst (fetches (log (snd (getTasks sample_platform ?p Hangs (sample_world ''a.b.c''))))) =
        [baseUrl (apiClient sample_platform) @ getTasks_endpoint ?p]"
    by (simp add: sample_world_def)
  moreover have "baseUrl (apiClient sample_platform) = ''http://localhost:8000''"
    by (simp add: apiClient_def sample_platform_def)
  ultimately show ?thesis
    using getTasks_endpoint_examples(1,3) by simp
qed

text \<open>
  Claim C10. The \<^verbatim>\<open>timeout\<close> field of the options never reaches the pipeline: each of
  \<^verbatim>\<open>get\<close>, \<^verbatim>\<open>post\<close>, \<^verbatim>\<open>put\<close>, \<^verbatim>\<open>patch\<close> and \<^verbatim>\<open>delete\<close> gives the same
  result and the same world with the field set as with the field absent, for every
  endpoint, body, headers, network behaviour and world. On the default client each verb
  arms exactly one timer, of 10000 ms, when a token is stored, and none otherwise,
  whatever the options say.
\<close>

theorem options_timeout_ignored:
  "get P cfg endpoint (Some \<lparr>opt_headers = hs, opt_timeout = Some t\<rparr>) n w =
     get P cfg endpoint (Some \<lparr>opt_headers = hs, opt_timeout = None\<rparr>) n w
   \<and> post P cfg endpoint data (Some \<lparr>opt_headers = hs, opt_timeout = Some t\<rparr>) n w =
       post P cfg endpoint data (Some \<lparr>opt_headers = hs, opt_timeout = None\<rparr>) n w
   \<and> put P cfg endpoint data (Some \<lparr>opt_headers = hs, opt_timeout = Some t\<rparr>) n w =
       put P cfg endpoint data (Some \<lparr>opt_headers = hs, opt_timeout = None\<rparr>) n w
   \<and> patch P cfg endpoint data (Some \<lparr>opt_headers = hs, opt_timeout = Some t\<rparr>) n w =
       patch P cfg endpoint data (Some \<lparr>opt_headers = hs, opt_timeout = None\<rparr>) n w
   \<and> delete P cfg endpoint (Some \<lparr>opt_headers = hs, opt_timeout = Some t\<rparr>) n w =
       delete P cfg endpoint (Some \<lparr>opt_headers = hs, opt_timeout = None\<rparr>) n w
   \<and> (let armed = (if has_window w \<and> storage w ''auth_token'' \<noteq> None
                        \<and> storage w ''auth_token'' \<noteq> Some []
                     then [10000] else [])
      in timers (log (snd (get P (apiClient P) endpoint opts n w))) = timers (log w) @ armed
       \<and> timers (log (snd (post P (apiClient P) endpoint data opts n w))) = timers (log w) @ armed
       \<and> timers (log (snd (put P (apiClient P) endpoint data opts n w))) = timers (log w) @ armed
       \<and> timers (log (snd (patch P (apiClient P) endpoint data opts n w))) = timers (log w) @ armed
       \<and> timers (log (snd (delete P (apiClient P) endpoint opts n w))) = timers (log w) @ armed)"
proof -
  have same: "options_headers (Some \<lparr>opt_headers = hs, opt_timeout = Some t\<rparr>) =
              options_headers (Some \<lparr>opt_headers = hs, opt_timeout = None\<rparr>)"
    by (simp add: options_headers_def)
  have c: "tokenKey (apiClient P) = ''auth_token''" "timeout (apiClient P) = 10000"
    by (simp_all add: apiClient_def)
  have a: "timer_armed (apiClient P) \<lparr>req_method = m, headers = h, body = b, signal = None\<rparr>"
    for m h b
    by (simp add: timer_armed_def request_timeout_def c)
  have d: "snd (delete P cfg' endpoint opts n w) =
           snd (request P cfg' endpoint
             \<lparr>req_method = Some ''DELETE'', headers = options_headers opts, body = None,
              signal = None\<rparr> n w)" for cfg'
    by (simp add: delete_def split: prod.splits outcome.splits)
  have eqs: "get P cfg endpoint (Some \<lparr>opt_headers = hs, opt_timeout = Some t\<rparr>) n w =
     get P cfg endpoint (Some \<lparr>opt_headers = hs, opt_timeout = None\<rparr>) n w"
    "post P cfg endpoint data (Some \<lparr>opt_headers = hs, opt_timeout = Some t\<rparr>) n w =
       post P cfg endpoint data (Some \<lparr>opt_headers = hs, opt_timeout = None\<rparr>) n w"
    "put P cfg endpoint data (Some \<lparr>opt_headers = hs, opt_timeout = Some t\<rparr>) n w =
       put P cfg endpoint data (Some \<lparr>opt_headers = hs, opt_timeout = None\<rparr>) n w"
    "patch P cfg endpoint data (Some \<lparr>opt_headers = hs, opt_timeout = Some t\<rparr>) n w =
       patch P cfg endpoint data (Some \<lparr>opt_headers = hs, opt_timeout = None\<rparr>) n w"
    "delete P cfg endpoint (Some \<lparr>opt_headers = hs, opt_timeout = Some t\<rparr>) n w =
       delete P cfg endpoint (Some \<lparr>opt_headers = hs, opt_timeout = None\<rparr>) n w"
    by (simp_all add: get_def post_def put_def patch_def delete_def same)
  have tm: "timers (log (snd (get P (apiClient P) endpoint opts n w))) =
        timers (log w) @ (if has_window w \<and> storage w ''auth_token'' \<noteq> None
                        \<and> storage w ''auth_token'' \<noteq> Some [] then [10000] else [])"
    "timers (log (snd (post P (apiClient P) endpoint data opts n w))) =
        timers (log w) @ (if has_window w \<and> storage w ''auth_token'' \<noteq> None
                        \<and> storage w ''auth_token'' \<noteq> Some [] then [10000] else [])"
    "timers (log (snd (put P (apiClient P) endpoint data opts n w))) =
        timers (log w) @ (if has_window w \<and> storage w ''auth_token'' \<noteq> None
                        \<and> storage w ''auth_token'' \<noteq> Some [] then [10000] else [])"
    "timers (log (snd (patch P (apiClient P) endpoint data opts n w))) =
        timers (log w) @ (if has_window w \<and> storage w ''auth_token'' \<noteq> None
                        \<and> storage w ''auth_token'' \<noteq> Some [] then [10000] else [])"
    "timers (log (snd (delete P (apiClient P) endpoint opts n w))) =
        timers (log w) @ (if has_window w \<and> storage w ''auth_token'' \<noteq> None
                        \<and> storage w ''auth_token'' \<noteq> Some [] then [10000] else [])"
    by (simp_all only: get_def post_def put_def patch_def d request_timers a c if_True simp_thms)
  show ?thesis
    unfolding Let_def using eqs tm by blast
qed

theorem options_timeout_ignored_witness:
  "get sample_platform (apiClient sample_platform) ''/api/v1/tasks''
     (Some \<lparr>opt_headers = None, opt_timeout = Some 50\<rparr>) Hangs (sample_world ''a.b.c'') =
   get sample_platform (apiClient sample_platform) ''/api/v1/tasks''
     (Some \<lparr>opt_headers = None, opt_timeout = None\<rparr>) Hangs (sample_world ''a.b.c'')
   \<and> timers (log (snd (get sample_platform (apiClient sample_platform) ''/api/v1/tasks''
         (Some \<lparr>opt_headers = None, opt_timeout = Some 50\<rparr>) Hangs (sample_world ''a.b.c'')))) =
       [10000]"
proof -
  note t = options_timeout_ignored [of sample_platform "apiClient sample_platform"
      "''/api/v1/tasks''" None 50 Hangs "sample_world ''a.b.c''" JNull
      "Some \<lparr>opt_headers = None, opt_timeout = Some 50\<rparr>"]
  from t [THEN conjunct2, THEN conjunct2, THEN conjunct2, THEN conjunct2, THEN conjunct2]
  have "timers (log (snd (get sample_platform (apiClient sample_platform) ''/api/v1/tasks''
         (Some \<lparr>opt_headers = None, opt_timeout = Some 50\<rparr>) Hangs (sample_world ''a.b.c'')))) =
       [10000]"
    by (simp add: Let_def sample_world_def)
  with t [THEN conjunct1] show ?thesis by simp
qed

end
